theory Spec2Isabelle
  imports Main
begin

section \<open>JavaScript values\<close>

text \<open>
  The store keeps whatever the HTTP responses carry (\<^verbatim>\<open>response.data\<close> is untyped), so
  the fields \<^verbatim>\<open>current_user\<close>, \<^verbatim>\<open>auth_token\<close> and \<^verbatim>\<open>error_message\<close> hold run-time values, not
  values of their declared TypeScript types. A value is a JSON value or \<^verbatim>\<open>undefined\<close>. An
  object is the list of its own properties, the first entry for a key being the one read.
  Numbers are only ever tested for truthiness here, so they are integers (a JSON number is
  falsy exactly when it is zero).
\<close>

datatype jsval =
    JUndefined
  | JNull
  | JBool bool
  | JNum int
  | JStr string
  | JArr "jsval list"
  | JObj "(string \<times> jsval) list"

text \<open>\<^verbatim>\<open>!v\<close> is false exactly on the truthy values.\<close>

fun truthy :: "jsval \<Rightarrow> bool" where
  "truthy JUndefined = False"
| "truthy JNull = False"
| "truthy (JBool b) = b"
| "truthy (JNum n) = (n \<noteq> 0)"
| "truthy (JStr s) = (s \<noteq> [])"
| "truthy (JArr xs) = True"
| "truthy (JObj fs) = True"

text \<open>\<^verbatim>\<open>null\<close> and \<^verbatim>\<open>undefined\<close>: the values on which a property read throws.\<close>

fun nullish :: "jsval \<Rightarrow> bool" where
  "nullish JUndefined = True"
| "nullish JNull = True"
| "nullish (JBool b) = False"
| "nullish (JNum n) = False"
| "nullish (JStr s) = False"
| "nullish (JArr xs) = False"
| "nullish (JObj fs) = False"

definition non_null :: "jsval \<Rightarrow> bool" where
  "non_null v = (\<not> nullish v)"

text \<open>
  \<^verbatim>\<open>v.k\<close> for a value that is not nullish and a key \<open>k\<close> that no prototype defines (the
  source reads \<^verbatim>\<open>user\<close>, \<^verbatim>\<open>token\<close>, \<^verbatim>\<open>data\<close> and \<^verbatim>\<open>message\<close> only): the own property of an
  object, \<^verbatim>\<open>undefined\<close> on everything else.
\<close>

fun get_prop :: "string \<Rightarrow> jsval \<Rightarrow> jsval" where
  "get_prop k (JObj fs) = (case map_of fs k of Some v \<Rightarrow> v | None \<Rightarrow> JUndefined)"
| "get_prop k v = JUndefined"

text \<open>\<^verbatim>\<open>v?.k\<close>\<close>

definition opt_prop :: "string \<Rightarrow> jsval \<Rightarrow> jsval" where
  "opt_prop k v = (if nullish v then JUndefined else get_prop k v)"

text \<open>\<^verbatim>\<open>a || b\<close>\<close>

definition js_or :: "jsval \<Rightarrow> jsval \<Rightarrow> jsval" where
  "js_or a b = (if truthy a then a else b)"

text \<open>A message that a person can read: a string, and not the empty one.\<close>

fun human_readable :: "jsval \<Rightarrow> bool" where
  "human_readable (JStr s) = (s \<noteq> [])"
| "human_readable v = False"


section \<open>The state of the store\<close>

record AuthenticationStatus =
  is_authenticated :: bool
  is_loading :: bool

record AuthState =
  current_user :: jsval
  auth_token :: jsval
  authentication_status :: AuthenticationStatus
  error_message :: jsval

record Initiative =
  initiative_id :: string
  title :: string
  description :: string

text \<open>The two metrics and the notification count are stored and never computed with.\<close>

record ImpactMetrics =
  carbon_saved :: int
  water_saved :: int

datatype Theme = Light | Dark

record EnvSettings =
  theme :: Theme

record AppState =
  auth_state :: AuthState
  featured_initiatives :: "Initiative list"
  user_impact :: "ImpactMetrics option"
  notification_count :: int
  environment_settings :: EnvSettings

definition initial_state :: AppState where
  "initial_state =
     \<lparr> auth_state =
         \<lparr> current_user = JNull,
           auth_token = JNull,
           authentication_status = \<lparr> is_authenticated = False, is_loading = True \<rparr>,
           error_message = JNull \<rparr>,
       featured_initiatives = [],
       user_impact = None,
       notification_count = 0,
       environment_settings = \<lparr> theme = Light \<rparr> \<rparr>"


section \<open>The network\<close>

text \<open>
  A header value is a literal or the template \<^verbatim>\<open>`Bearer ${token}`\<close>, kept with the value
  that fills it.
\<close>

datatype header_value = Literal string | Bearer jsval

datatype http_request =
    Post string jsval "(string \<times> header_value) list"
  | Get string "(string \<times> header_value) list"

text \<open>
  What axios rejects with: an error object with a \<^verbatim>\<open>message\<close> and, when the server
  answered, a \<^verbatim>\<open>response\<close> (\<^verbatim>\<open>undefined\<close> otherwise).
\<close>

record js_error =
  err_response :: jsval
  err_message :: string

text \<open>
  The promise of a request resolves with a response whose \<^verbatim>\<open>data\<close> is given, rejects with
  an error, or never settles.
\<close>

datatype reply = Resolved jsval | Rejected js_error | NoReply

text \<open>
  How a run of an action ended: it returned, it threw \<^verbatim>\<open>new Error(m)\<close>, or it is still
  waiting for a promise that never settles.
\<close>

datatype outcome = Returned | Threw_Error jsval | Suspended

record action_result =
  final :: AppState
  calls :: "http_request list"
  outcome :: outcome

text \<open>
  \<^verbatim>\<open>import.meta.env.VITE_API_BASE_URL || 'http://localhost:3000'\<close>; the variable is a
  string when it is set.
\<close>

definition api_base :: "string option \<Rightarrow> string" where
  "api_base v =
     (case v of
        None \<Rightarrow> ''http://localhost:3000''
      | Some u \<Rightarrow> if u \<noteq> [] then u else ''http://localhost:3000'')"

text \<open>
  \<^verbatim>\<open>const { ... } = response.data\<close> throws a TypeError when \<^verbatim>\<open>response.data\<close> is nullish.
  The wording of its message is the engine's; the text here stands for it, a string that
  is not empty, as every engine's is.
\<close>

definition destructure_error :: "string \<Rightarrow> js_error" where
  "destructure_error k =
     \<lparr> err_response = JUndefined,
       err_message = ''Cannot destructure property '' @ k @ '' of response.data'' \<rparr>"


section \<open>The actions of the store\<close>

text \<open>
  An action that awaits a request takes the reply \<open>r\<close> to that request, and its result
  lists the requests it sent. \<open>env\<close> is the value of \<^verbatim>\<open>VITE_API_BASE_URL\<close>.
\<close>

subsection \<open>login\<close>

definition login_request :: "string option \<Rightarrow> string \<Rightarrow> string \<Rightarrow> http_request" where
  "login_request env email password =
     Post (api_base env @ ''/api/auth/login'')
          (JObj [(''email'', JStr email), (''password'', JStr password)])
          [(''Content-Type'', Literal ''application/json'')]"

text \<open>The first \<^verbatim>\<open>set\<close> of login: loading, error cleared, the rest of the slice kept.\<close>

definition login_begin :: "AppState \<Rightarrow> AppState" where
  "login_begin state =
     state\<lparr> auth_state :=
       (auth_state state)
         \<lparr> authentication_status :=
             (authentication_status (auth_state state))\<lparr> is_loading := True \<rparr>,
           error_message := JNull \<rparr> \<rparr>"

text \<open>
  The body of the \<^verbatim>\<open>try\<close> up to the destructuring: the error that enters the \<^verbatim>\<open>catch\<close>, or
  \<^verbatim>\<open>user\<close> and \<^verbatim>\<open>token\<close>.
\<close>

fun login_try :: "reply \<Rightarrow> (js_error + jsval \<times> jsval) option" where
  "login_try NoReply = None"
| "login_try (Rejected error) = Some (Inl error)"
| "login_try (Resolved data) =
     (if nullish data then Some (Inl (destructure_error ''user''))
      else Some (Inr (get_prop ''user'' data, get_prop ''token'' data)))"

text \<open>\<^verbatim>\<open>error.response?.data?.message || error.message || 'Login failed'\<close>\<close>

definition login_error_message :: "js_error \<Rightarrow> jsval" where
  "login_error_message error =
     js_or (opt_prop ''message'' (opt_prop ''data'' (err_response error)))
       (js_or (JStr (err_message error)) (JStr ''Login failed''))"

definition login ::
  "string option \<Rightarrow> reply \<Rightarrow> string \<Rightarrow> string \<Rightarrow> AppState \<Rightarrow> action_result" where
  "login env r email password state0 =
     (let state = login_begin state0;
          req = login_request env email password
      in case login_try r of
           None \<Rightarrow> \<lparr> final = state, calls = [req], outcome = Suspended \<rparr>
         | Some (Inr (user, token)) \<Rightarrow>
             \<lparr> final = state\<lparr> auth_state :=
                 \<lparr> current_user = user,
                   auth_token = token,
                   authentication_status = \<lparr> is_authenticated = True, is_loading = False \<rparr>,
                   error_message = JNull \<rparr> \<rparr>,
               calls = [req],
               outcome = Returned \<rparr>
         | Some (Inl error) \<Rightarrow>
             (let errorMessage = login_error_message error
              in \<lparr> final = state\<lparr> auth_state :=
                     (auth_state state)
                       \<lparr> authentication_status :=
                           \<lparr> is_authenticated = False, is_loading = False \<rparr>,
                         error_message := errorMessage \<rparr> \<rparr>,
                   calls = [req],
                   outcome = Threw_Error errorMessage \<rparr>))"

subsection \<open>logout\<close>

definition logout :: "AppState \<Rightarrow> AppState" where
  "logout state =
     state\<lparr> auth_state :=
       \<lparr> current_user = JNull,
         auth_token = JNull,
         authentication_status = \<lparr> is_authenticated = False, is_loading = False \<rparr>,
         error_message = JNull \<rparr> \<rparr>"

subsection \<open>check_auth\<close>

definition verify_request :: "string option \<Rightarrow> jsval \<Rightarrow> http_request" where
  "verify_request env token =
     Get (api_base env @ ''/api/auth/verify'') [(''Authorization'', Bearer token)]"

fun verify_try :: "reply \<Rightarrow> (js_error + jsval) option" where
  "verify_try NoReply = None"
| "verify_try (Rejected error) = Some (Inl error)"
| "verify_try (Resolved data) =
     (if nullish data then Some (Inl (destructure_error ''user''))
      else Some (Inr (get_prop ''user'' data)))"

definition check_auth :: "string option \<Rightarrow> reply \<Rightarrow> AppState \<Rightarrow> action_result" where
  "check_auth env r state =
     (let token = auth_token (auth_state state)
      in if \<not> truthy token then
           \<lparr> final = state\<lparr> auth_state :=
               (auth_state state)
                 \<lparr> authentication_status :=
                     \<lparr> is_authenticated = False, is_loading = False \<rparr> \<rparr> \<rparr>,
             calls = [],
             outcome = Returned \<rparr>
         else
           (let req = verify_request env token
            in case verify_try r of
                 None \<Rightarrow> \<lparr> final = state, calls = [req], outcome = Suspended \<rparr>
               | Some (Inr user) \<Rightarrow>
                   \<lparr> final = state\<lparr> auth_state :=
                       \<lparr> current_user = user,
                         auth_token = token,
                         authentication_status =
                           \<lparr> is_authenticated = True, is_loading = False \<rparr>,
                         error_message = JNull \<rparr> \<rparr>,
                     calls = [req],
                     outcome = Returned \<rparr>
               | Some (Inl error) \<Rightarrow>
                   \<lparr> final = state\<lparr> auth_state :=
                       \<lparr> current_user = JNull,
                         auth_token = JNull,
                         authentication_status =
                           \<lparr> is_authenticated = False, is_loading = False \<rparr>,
                         error_message = JNull \<rparr> \<rparr>,
                     calls = [req],
                     outcome = Returned \<rparr>))"

subsection \<open>clear_error and the setters\<close>

definition clear_error :: "AppState \<Rightarrow> AppState" where
  "clear_error state =
     state\<lparr> auth_state := (auth_state state)\<lparr> error_message := JNull \<rparr> \<rparr>"

definition set_featured_initiatives :: "Initiative list \<Rightarrow> AppState \<Rightarrow> AppState" where
  "set_featured_initiatives initiatives state = state\<lparr> featured_initiatives := initiatives \<rparr>"

definition set_user_impact :: "ImpactMetrics \<Rightarrow> AppState \<Rightarrow> AppState" where
  "set_user_impact impact state = state\<lparr> user_impact := Some impact \<rparr>"

definition set_notification_count :: "int \<Rightarrow> AppState \<Rightarrow> AppState" where
  "set_notification_count count state = state\<lparr> notification_count := count \<rparr>"

definition update_environment_settings :: "EnvSettings \<Rightarrow> AppState \<Rightarrow> AppState" where
  "update_environment_settings settings state = state\<lparr> environment_settings := settings \<rparr>"


section \<open>Persistence\<close>

record Persisted =
  persisted_auth_state :: AuthState

definition partialize :: "AppState \<Rightarrow> Persisted" where
  "partialize state =
     \<lparr> persisted_auth_state =
         \<lparr> current_user = current_user (auth_state state),
           auth_token = auth_token (auth_state state),
           authentication_status =
             \<lparr> is_authenticated = is_authenticated (authentication_status (auth_state state)),
               is_loading = False \<rparr>,
           error_message = JNull \<rparr> \<rparr>"


text \<open>
  The persist middleware of zustand (a library) writes \<open>partialize state\<close> to storage after
  every \<^verbatim>\<open>set\<close>, and on start merges what it reads over the freshly created state, slice by
  slice: a stored slice replaces the initial one.
\<close>

definition rehydrate :: "Persisted \<Rightarrow> AppState \<Rightarrow> AppState" where
  "rehydrate p state = state\<lparr> auth_state := persisted_auth_state p \<rparr>"

text \<open>Reloading the page: a fresh store, rehydrated from what the last state left in storage.\<close>

definition reload :: "AppState \<Rightarrow> AppState" where
  "reload state = rehydrate (partialize state) initial_state"


section \<open>Runs of the store\<close>

text \<open>
  One action of a run, with the reply the network gives to the request it makes (if it
  makes one).
\<close>

datatype action =
    Login string string reply
  | Logout
  | Check_Auth reply
  | Clear_Error
  | Set_Featured_Initiatives "Initiative list"
  | Set_User_Impact ImpactMetrics
  | Set_Notification_Count int
  | Update_Environment_Settings EnvSettings
  | Reload

fun step :: "string option \<Rightarrow> action \<Rightarrow> AppState \<Rightarrow> AppState" where
  "step env (Login email password r) state = final (login env r email password state)"
| "step env Logout state = logout state"
| "step env (Check_Auth r) state = final (check_auth env r state)"
| "step env Clear_Error state = clear_error state"
| "step env (Set_Featured_Initiatives initiatives) state =
     set_featured_initiatives initiatives state"
| "step env (Set_User_Impact impact) state = set_user_impact impact state"
| "step env (Set_Notification_Count count) state = set_notification_count count state"
| "step env (Update_Environment_Settings settings) state =
     update_environment_settings settings state"
| "step env Reload state = reload state"

definition run :: "string option \<Rightarrow> action list \<Rightarrow> AppState" where
  "run env acts = fold (step env) acts initial_state"

text \<open>
  A reply that, when it is a success, carries what the client reads from it: a login
  response a \<^verbatim>\<open>user\<close> and a \<^verbatim>\<open>token\<close>, a verify response a \<^verbatim>\<open>user\<close>, none of them nullish.
\<close>

fun carries :: "string list \<Rightarrow> reply \<Rightarrow> bool" where
  "carries ks (Resolved data) = list_all (\<lambda>k. non_null (get_prop k data)) ks"
| "carries ks r = True"

fun well_formed :: "action \<Rightarrow> bool" where
  "well_formed (Login email password r) = carries [''user'', ''token''] r"
| "well_formed (Check_Auth r) = carries [''user''] r"
| "well_formed a = True"

text \<open>The two sides of the invariant of the auth slice.\<close>

definition flag_authenticated :: "AppState \<Rightarrow> bool" where
  "flag_authenticated state = is_authenticated (authentication_status (auth_state state))"

definition has_user_and_token :: "AppState \<Rightarrow> bool" where
  "has_user_and_token state =
     (non_null (current_user (auth_state state)) \<and> non_null (auth_token (auth_state state)))"

definition auth_implies_present :: "AppState \<Rightarrow> bool" where
  "auth_implies_present state = (flag_authenticated state \<longrightarrow> has_user_and_token state)"


section \<open>The backend: registration\<close>

text \<open>
  Modelled from the spec: the backend (\<^verbatim>\<open>server.ts\<close>, with its \<^verbatim>\<open>register\<close> handler and the
  \<^verbatim>\<open>users\<close> table) is not among the sources; only its tests are. What follows is sections
  3, 4.1, 5, 6 and 7 of the specification: the error taxonomy and its status codes, the User
  row, the Credential Store with its uniqueness constraint, and \<^verbatim>\<open>register\<close>.
\<close>

datatype auth_error =
    ValidationError
  | DuplicateEmail
  | InvalidCredentials
  | Unauthenticated
  | Forbidden
  | InternalError

fun status_code :: "auth_error \<Rightarrow> nat" where
  "status_code ValidationError = 400"
| "status_code DuplicateEmail = 400"
| "status_code InvalidCredentials = 401"
| "status_code Unauthenticated = 401"
| "status_code Forbidden = 403"
| "status_code InternalError = 500"

record User =
  user_id :: nat
  user_email :: string
  password_hash :: string
  is_admin :: bool
  created_at :: nat

text \<open>
  Modelled from the spec: the Credential Store holds the rows; it is the authority on
  uniqueness and rejects an insert whose email is already stored.
\<close>

definition email_taken :: "string \<Rightarrow> User list \<Rightarrow> bool" where
  "email_taken e rows = (e \<in> set (map user_email rows))"

definition store_insert :: "User \<Rightarrow> User list \<Rightarrow> auth_error + User list" where
  "store_insert u rows =
     (if email_taken (user_email u) rows then Inl DuplicateEmail else Inr (rows @ [u]))"

definition rows_with_email :: "string \<Rightarrow> User list \<Rightarrow> User list" where
  "rows_with_email e rows = filter (\<lambda>u. user_email u = e) rows"

text \<open>
  Modelled from the spec: what \<^verbatim>\<open>register\<close> uses and the specification leaves open is a
  parameter: the case normalisation of emails, the salted hash, the token issued for a user
  id and the time of creation.
\<close>

record backend =
  normalize :: "string \<Rightarrow> string"
  hash_password :: "string \<Rightarrow> string"
  issue_token :: "nat \<Rightarrow> string"
  clock :: nat

record registration =
  reg_email :: string
  reg_password :: string
  reg_username :: string

record session =
  session_user_id :: nat
  session_auth_token :: string

text \<open>Modelled from the spec: the row of a new user; rows are never deleted.\<close>

definition new_user :: "backend \<Rightarrow> registration \<Rightarrow> User list \<Rightarrow> User" where
  "new_user b q rows =
     \<lparr> user_id = Suc (length rows),
       user_email = normalize b (reg_email q),
       password_hash = hash_password b (reg_password q),
       is_admin = False,
       created_at = clock b \<rparr>"

text \<open>
  Modelled from the spec: a registration request is handled in two steps, the uniqueness
  check and the insert, and the steps of concurrent requests interleave. A request has been
  received, has passed the check, or is done with its response.
\<close>

datatype phase = Received | Checked | Done "auth_error + session"

fun advance :: "backend \<Rightarrow> registration \<times> phase \<Rightarrow> User list
    \<Rightarrow> (registration \<times> phase) \<times> User list" where
  "advance b (q, Received) rows =
     (if email_taken (normalize b (reg_email q)) rows
      then ((q, Done (Inl DuplicateEmail)), rows)
      else ((q, Checked), rows))"
| "advance b (q, Checked) rows =
     (case store_insert (new_user b q rows) rows of
        Inl e \<Rightarrow> ((q, Done (Inl DuplicateEmail)), rows)
      | Inr rows' \<Rightarrow>
          ((q, Done (Inr \<lparr> session_user_id = user_id (new_user b q rows),
                          session_auth_token = issue_token b (user_id (new_user b q rows)) \<rparr>)),
           rows'))"
| "advance b (q, Done res) rows = ((q, Done res), rows)"

text \<open>
  Modelled from the spec: \<^verbatim>\<open>register\<close> run alone: it checks uniqueness, fails with
  DuplicateEmail on a collision, otherwise stores the user, issues a token and returns
  \<^verbatim>\<open>{user_id, auth_token}\<close>.
\<close>

definition register :: "backend \<Rightarrow> registration \<Rightarrow> User list
    \<Rightarrow> (auth_error + session) \<times> User list" where
  "register b q rows =
     (if email_taken (normalize b (reg_email q)) rows then (Inl DuplicateEmail, rows)
      else case store_insert (new_user b q rows) rows of
             Inl e \<Rightarrow> (Inl e, rows)
           | Inr rows' \<Rightarrow>
               (Inr \<lparr> session_user_id = user_id (new_user b q rows),
                      session_auth_token = issue_token b (user_id (new_user b q rows)) \<rparr>,
                rows'))"

text \<open>
  Modelled from the spec: the server with its requests in flight. A schedule names, step by
  step, the request that moves next; every interleaving of the requests is a schedule.
\<close>

record server =
  store :: "User list"
  attempts :: "(registration \<times> phase) list"

definition arrive :: "registration list \<Rightarrow> User list \<Rightarrow> server" where
  "arrive qs rows = \<lparr> store = rows, attempts = map (\<lambda>q. (q, Received)) qs \<rparr>"

definition schedule_step :: "backend \<Rightarrow> nat \<Rightarrow> server \<Rightarrow> server" where
  "schedule_step b i sv =
     (if i < length (attempts sv)
      then (case advance b (attempts sv ! i) (store sv) of
              (a, rows) \<Rightarrow> \<lparr> store = rows, attempts = (attempts sv)[i := a] \<rparr>)
      else sv)"

definition run_schedule :: "backend \<Rightarrow> nat list \<Rightarrow> server \<Rightarrow> server" where
  "run_schedule b sched sv = fold (schedule_step b) sched sv"

text \<open>
  A request for the email \<open>e\<close> is kept out: it waits for its first step or has failed with
  DuplicateEmail. Requests for other emails are not constrained.
\<close>

fun kept_out :: "string \<Rightarrow> (string \<Rightarrow> string) \<Rightarrow> registration \<times> phase \<Rightarrow> bool" where
  "kept_out e norm (q, Received) = True"
| "kept_out e norm (q, Checked) = (norm (reg_email q) \<noteq> e)"
| "kept_out e norm (q, Done res) = (norm (reg_email q) \<noteq> e \<or> res = Inl DuplicateEmail)"

definition unique_emails :: "User list \<Rightarrow> bool" where
  "unique_emails rows = distinct (map user_email rows)"

definition duplicate_refused :: "backend \<Rightarrow> string \<Rightarrow> server \<Rightarrow> bool" where
  "duplicate_refused b e sv =
     (unique_emails (store sv) \<and> email_taken e (store sv)
      \<and> list_all (kept_out e (normalize b)) (attempts sv))"

text \<open>An instance of the parameters, and the request of the duplicate-email test.\<close>

definition sample_backend :: backend where
  "sample_backend =
     \<lparr> normalize = id, hash_password = rev, issue_token = (\<lambda>n. replicate n CHR ''t''), clock = 0 \<rparr>"

definition sample_registration :: registration where
  "sample_registration =
     \<lparr> reg_email = ''duplicate@example.com'', reg_password = ''password123'',
       reg_username = ''testuser'' \<rparr>"


section \<open>What each action does, reply by reply\<close>

lemma truthy_not_nullish: "truthy v \<Longrightarrow> \<not> nullish v"
  by (cases v) simp_all

lemma login_error_message_truthy: "truthy (login_error_message error)"
  by (simp add: login_error_message_def js_or_def)

text \<open>
  The message is the server's whenever that is truthy, of whatever type; the two
  fall-backs are strings that are not empty.
\<close>

lemma login_error_message_readable:
  "human_readable (login_error_message error) =
     (truthy (opt_prop ''message'' (opt_prop ''data'' (err_response error)))
      \<longrightarrow> human_readable (opt_prop ''message'' (opt_prop ''data'' (err_response error))))"
  by (simp add: login_error_message_def js_or_def)

text \<open>Without a response, the message is the error's own, or the fixed text.\<close>

lemma login_error_message_no_response:
  "login_error_message \<lparr> err_response = JUndefined, err_message = m \<rparr> =
     JStr (if m = [] then ''Login failed'' else m)"
  by (simp add: login_error_message_def js_or_def opt_prop_def)

lemma login_rejected:
  "login env (Rejected error) email password state =
     \<lparr> final = state\<lparr> auth_state :=
         (auth_state state)
           \<lparr> authentication_status := \<lparr> is_authenticated = False, is_loading = False \<rparr>,
             error_message := login_error_message error \<rparr> \<rparr>,
       calls = [login_request env email password],
       outcome = Threw_Error (login_error_message error) \<rparr>"
  by (simp add: login_def login_begin_def Let_def)

lemma login_resolved:
  "\<not> nullish data \<Longrightarrow>
   login env (Resolved data) email password state =
     \<lparr> final = state\<lparr> auth_state :=
         \<lparr> current_user = get_prop ''user'' data,
           auth_token = get_prop ''token'' data,
           authentication_status = \<lparr> is_authenticated = True, is_loading = False \<rparr>,
           error_message = JNull \<rparr> \<rparr>,
       calls = [login_request env email password],
       outcome = Returned \<rparr>"
  by (simp add: login_def login_begin_def Let_def)

lemma login_resolved_nullish:
  "nullish data \<Longrightarrow>
   login env (Resolved data) email password state =
     \<lparr> final = state\<lparr> auth_state :=
         (auth_state state)
           \<lparr> authentication_status := \<lparr> is_authenticated = False, is_loading = False \<rparr>,
             error_message := login_error_message (destructure_error ''user'') \<rparr> \<rparr>,
       calls = [login_request env email password],
       outcome = Threw_Error (login_error_message (destructure_error ''user'')) \<rparr>"
  by (simp add: login_def login_begin_def Let_def)

lemma login_no_reply:
  "login env NoReply email password state =
     \<lparr> final = login_begin state,
       calls = [login_request env email password],
       outcome = Suspended \<rparr>"
  by (simp add: login_def Let_def)

lemma check_auth_falsy:
  "\<not> truthy (auth_token (auth_state state)) \<Longrightarrow>
   check_auth env r state =
     \<lparr> final = state\<lparr> auth_state :=
         (auth_state state)
           \<lparr> authentication_status := \<lparr> is_authenticated = False, is_loading = False \<rparr> \<rparr> \<rparr>,
       calls = [],
       outcome = Returned \<rparr>"
  by (simp add: check_auth_def)

text \<open>The \<^verbatim>\<open>catch\<close> of check_auth writes the very slice that logout writes.\<close>

lemma check_auth_rejected:
  "truthy (auth_token (auth_state state)) \<Longrightarrow>
   check_auth env (Rejected error) state =
     \<lparr> final = logout state,
       calls = [verify_request env (auth_token (auth_state state))],
       outcome = Returned \<rparr>"
  by (simp add: check_auth_def logout_def Let_def)

lemma check_auth_resolved:
  "truthy (auth_token (auth_state state)) \<Longrightarrow> \<not> nullish data \<Longrightarrow>
   check_auth env (Resolved data) state =
     \<lparr> final = state\<lparr> auth_state :=
         \<lparr> current_user = get_prop ''user'' data,
           auth_token = auth_token (auth_state state),
           authentication_status = \<lparr> is_authenticated = True, is_loading = False \<rparr>,
           error_message = JNull \<rparr> \<rparr>,
       calls = [verify_request env (auth_token (auth_state state))],
       outcome = Returned \<rparr>"
  by (simp add: check_auth_def Let_def)

lemma check_auth_resolved_nullish:
  "truthy (auth_token (auth_state state)) \<Longrightarrow> nullish data \<Longrightarrow>
   check_auth env (Resolved data) state =
     \<lparr> final = logout state,
       calls = [verify_request env (auth_token (auth_state state))],
       outcome = Returned \<rparr>"
  by (simp add: check_auth_def logout_def Let_def)

lemma check_auth_no_reply:
  "truthy (auth_token (auth_state state)) \<Longrightarrow>
   check_auth env NoReply state =
     \<lparr> final = state,
       calls = [verify_request env (auth_token (auth_state state))],
       outcome = Suspended \<rparr>"
  by (simp add: check_auth_def Let_def)

lemma check_auth_calls:
  "truthy (auth_token (auth_state state)) \<Longrightarrow>
   calls (check_auth env r state) = [verify_request env (auth_token (auth_state state))]"
  by (cases r; cases "\<exists>data. r = Resolved data \<and> nullish data")
     (auto simp: check_auth_rejected check_auth_resolved check_auth_resolved_nullish
        check_auth_no_reply)


section \<open>The invariant of the auth slice\<close>

lemma login_preserves:
  assumes "carries [''user'', ''token''] r" and "auth_implies_present state"
  shows "auth_implies_present (final (login env r email password state))"
proof (cases r)
  case (Resolved data)
  show ?thesis
  proof (cases "nullish data")
    case True
    then show ?thesis
      by (simp add: Resolved login_resolved_nullish auth_implies_present_def
          flag_authenticated_def)
  next
    case False
    with assms(1) show ?thesis
      by (simp add: Resolved login_resolved auth_implies_present_def flag_authenticated_def
          has_user_and_token_def)
  qed
next
  case (Rejected error)
  then show ?thesis
    by (simp add: login_rejected auth_implies_present_def flag_authenticated_def)
next
  case NoReply
  with assms(2) show ?thesis
    by (simp add: login_no_reply login_begin_def auth_implies_present_def
        flag_authenticated_def has_user_and_token_def)
qed

lemma check_auth_preserves:
  assumes "carries [''user''] r" and "auth_implies_present state"
  shows "auth_implies_present (final (check_auth env r state))"
proof (cases "truthy (auth_token (auth_state state))")
  case False
  then show ?thesis
    by (simp add: check_auth_falsy auth_implies_present_def flag_authenticated_def)
next
  case tok: True
  show ?thesis
  proof (cases r)
    case (Resolved data)
    show ?thesis
    proof (cases "nullish data")
      case True
      with tok show ?thesis
        by (simp add: Resolved check_auth_resolved_nullish logout_def auth_implies_present_def
            flag_authenticated_def)
    next
      case False
      with tok assms(1) truthy_not_nullish [OF tok] show ?thesis
        by (simp add: Resolved check_auth_resolved auth_implies_present_def
            flag_authenticated_def has_user_and_token_def non_null_def)
    qed
  next
    case (Rejected error)
    with tok show ?thesis
      by (simp add: check_auth_rejected logout_def auth_implies_present_def
          flag_authenticated_def)
  next
    case NoReply
    with tok assms(2) show ?thesis
      by (simp add: check_auth_no_reply)
  qed
qed

lemma step_preserves:
  assumes "well_formed a" and "auth_implies_present state"
  shows "auth_implies_present (step env a state)"
proof (cases a)
  case (Login email password r)
  with assms show ?thesis by (simp add: login_preserves)
next
  case (Check_Auth r)
  with assms show ?thesis by (simp add: check_auth_preserves)
next
  case Logout
  then show ?thesis
    by (simp add: logout_def auth_implies_present_def flag_authenticated_def)
next
  case Reload
  with assms(2) show ?thesis
    by (simp add: reload_def rehydrate_def partialize_def auth_implies_present_def
        flag_authenticated_def has_user_and_token_def)
qed (use assms(2) in \<open>simp_all add: clear_error_def set_featured_initiatives_def
      set_user_impact_def set_notification_count_def update_environment_settings_def
      auth_implies_present_def flag_authenticated_def has_user_and_token_def\<close>)

lemma fold_step_preserves:
  "list_all well_formed acts \<Longrightarrow> auth_implies_present state \<Longrightarrow>
   auth_implies_present (fold (step env) acts state)"
  by (induction acts arbitrary: state) (simp_all add: step_preserves)


section \<open>Registration under interleaving\<close>

lemma register_by_steps:
  "register b q rows =
     (case advance b (fst (advance b (q, Received) rows)) (snd (advance b (q, Received) rows)) of
        ((q', Done res), rows') \<Rightarrow> (res, rows')
      | ((q', ph), rows') \<Rightarrow> (Inl InternalError, rows'))"
  by (simp add: register_def store_insert_def new_user_def)

lemma advance_unique:
  "unique_emails rows \<Longrightarrow> unique_emails (snd (advance b a rows))"
  by (cases "(b, a, rows)" rule: advance.cases)
     (auto simp: unique_emails_def store_insert_def email_taken_def)

lemma advance_taken:
  "email_taken e rows \<Longrightarrow> email_taken e (snd (advance b a rows))"
  by (cases "(b, a, rows)" rule: advance.cases)
     (auto simp: store_insert_def email_taken_def)

lemma advance_kept_out:
  "email_taken e rows \<Longrightarrow> kept_out e (normalize b) a \<Longrightarrow>
   kept_out e (normalize b) (fst (advance b a rows))"
  by (cases "(b, a, rows)" rule: advance.cases)
     (auto simp: store_insert_def email_taken_def new_user_def)

lemma list_all_update:
  "list_all P xs \<Longrightarrow> P y \<Longrightarrow> list_all P (xs[i := y])"
  using set_update_subset_insert [of xs i y] by (auto simp: list_all_iff)

lemma schedule_step_refused:
  assumes "duplicate_refused b e sv"
  shows "duplicate_refused b e (schedule_step b i sv)"
proof (cases "i < length (attempts sv)")
  case False
  with assms show ?thesis by (simp add: schedule_step_def)
next
  case True
  obtain a rows where adv: "advance b (attempts sv ! i) (store sv) = (a, rows)"
    by (cases "advance b (attempts sv ! i) (store sv)")
  from assms True have "kept_out e (normalize b) (attempts sv ! i)"
    by (simp add: duplicate_refused_def list_all_length)
  with assms have "kept_out e (normalize b) a"
    using advance_kept_out [of e "store sv" b "attempts sv ! i"] adv
    by (simp add: duplicate_refused_def)
  moreover from assms have "unique_emails rows" "email_taken e rows"
    using advance_unique [of "store sv" b "attempts sv ! i"]
      advance_taken [of e "store sv" b "attempts sv ! i"] adv
    by (simp_all add: duplicate_refused_def)
  ultimately show ?thesis
    using assms True adv
    by (simp add: schedule_step_def duplicate_refused_def list_all_update)
qed

lemma run_schedule_refused:
  "duplicate_refused b e sv \<Longrightarrow> duplicate_refused b e (run_schedule b sched sv)"
  unfolding run_schedule_def
  by (induction sched arbitrary: sv) (simp_all add: schedule_step_refused)

lemma arrive_refused:
  "unique_emails rows \<Longrightarrow> email_taken e rows \<Longrightarrow> duplicate_refused b e (arrive qs rows)"
  by (simp add: duplicate_refused_def arrive_def list_all_iff)

lemma one_row:
  "unique_emails rows \<Longrightarrow> email_taken e rows \<Longrightarrow> length (rows_with_email e rows) = 1"
  unfolding unique_emails_def email_taken_def rows_with_email_def
proof (induction rows)
  case Nil
  then show ?case by simp
next
  case (Cons u rows)
  show ?case
  proof (cases "user_email u = e")
    case True
    from Cons.prems(1) have "user_email u \<notin> user_email ` set rows"
      by simp
    with True have "\<forall>x \<in> set rows. user_email x \<noteq> e"
      by blast
    then have "filter (\<lambda>u. user_email u = e) rows = []"
      by (simp add: filter_empty_conv)
    with True show ?thesis by simp
  next
    case False
    with Cons show ?thesis by simp
  qed
qed

text \<open>
  Two requests for the same new email that both pass the check before either inserts: the
  store refuses the second insert.
\<close>

lemma racing_registrations:
  "store (run_schedule sample_backend [0, 1, 0, 1]
      (arrive [sample_registration, sample_registration] []))
     = [new_user sample_backend sample_registration []]
   \<and> map snd (attempts (run_schedule sample_backend [0, 1, 0, 1]
      (arrive [sample_registration, sample_registration] [])))
     = [Done (Inr \<lparr> session_user_id = 1, session_auth_token = ''t'' \<rparr>),
        Done (Inl DuplicateEmail)]"
  by (simp add: run_schedule_def schedule_step_def arrive_def store_insert_def email_taken_def
      new_user_def sample_backend_def sample_registration_def)


section \<open>The claims\<close>

subsection \<open>C1: authenticated if and only if user and token are present\<close>

text \<open>
  Claim C1 as stated fails. After a successful login, a login that fails resets the flags
  and keeps \<^verbatim>\<open>current_user\<close> and \<^verbatim>\<open>auth_token\<close>: both are non-null and
  \<^verbatim>\<open>is_authenticated\<close> is false.
\<close>

theorem authenticated_iff_user_and_token_counterexample:
  "\<not> (flag_authenticated
         (run None
            [Login ''ann@example.com'' ''pw''
               (Resolved (JObj [(''user'', JObj [(''id'', JStr ''u1'')]),
                                (''token'', JStr ''t1'')])),
             Login ''ann@example.com'' ''wrong''
               (Rejected \<lparr> err_response = JUndefined, err_message = ''Network Error'' \<rparr>)])
       \<longleftrightarrow>
       has_user_and_token
         (run None
            [Login ''ann@example.com'' ''pw''
               (Resolved (JObj [(''user'', JObj [(''id'', JStr ''u1'')]),
                                (''token'', JStr ''t1'')])),
             Login ''ann@example.com'' ''wrong''
               (Rejected \<lparr> err_response = JUndefined, err_message = ''Network Error'' \<rparr>)]))"
  by (simp add: run_def login_resolved login_rejected flag_authenticated_def
      has_user_and_token_def non_null_def)

text \<open>
  Claim C1, amended. In every state that a sequence of login, logout, check_auth,
  clear_error, the setters and reloads (rehydration from storage) reaches from the initial
  state, \<^verbatim>\<open>is_authenticated\<close> implies that \<^verbatim>\<open>current_user\<close> and \<^verbatim>\<open>auth_token\<close> are both non-null,
  provided that every successful login response carried a non-null \<^verbatim>\<open>user\<close> and \<^verbatim>\<open>token\<close> and
  every successful verify response a non-null \<^verbatim>\<open>user\<close>.
\<close>

theorem authenticated_implies_user_and_token:
  assumes "list_all well_formed acts" and "flag_authenticated (run env acts)"
  shows "has_user_and_token (run env acts)"
proof -
  have "auth_implies_present initial_state"
    by (simp add: auth_implies_present_def flag_authenticated_def initial_state_def)
  with assms(1) have "auth_implies_present (run env acts)"
    unfolding run_def by (rule fold_step_preserves)
  with assms(2) show ?thesis
    by (simp add: auth_implies_present_def)
qed

text \<open>
  Claim C1, amended, on a run: a login, a reload and the check_auth that follows it.
\<close>

theorem authenticated_implies_user_and_token_witness:
  "list_all well_formed
     [Login ''ann@example.com'' ''pw''
        (Resolved (JObj [(''user'', JObj [(''id'', JStr ''u1'')]), (''token'', JStr ''t1'')])),
      Reload,
      Check_Auth (Resolved (JObj [(''user'', JObj [(''id'', JStr ''u1'')])]))]
   \<and> flag_authenticated
       (run None
          [Login ''ann@example.com'' ''pw''
             (Resolved (JObj [(''user'', JObj [(''id'', JStr ''u1'')]), (''token'', JStr ''t1'')])),
           Reload,
           Check_Auth (Resolved (JObj [(''user'', JObj [(''id'', JStr ''u1'')])]))])
   \<and> has_user_and_token
       (run None
          [Login ''ann@example.com'' ''pw''
             (Resolved (JObj [(''user'', JObj [(''id'', JStr ''u1'')]), (''token'', JStr ''t1'')])),
           Reload,
           Check_Auth (Resolved (JObj [(''user'', JObj [(''id'', JStr ''u1'')])]))])"
proof -
  let ?acts = "[Login ''ann@example.com'' ''pw''
        (Resolved (JObj [(''user'', JObj [(''id'', JStr ''u1'')]), (''token'', JStr ''t1'')])),
      Reload,
      Check_Auth (Resolved (JObj [(''user'', JObj [(''id'', JStr ''u1'')])]))]"
  have wf: "list_all well_formed ?acts"
    by (simp add: non_null_def)
  have au: "flag_authenticated (run None ?acts)"
    by (simp add: run_def login_resolved reload_def rehydrate_def partialize_def
        check_auth_resolved flag_authenticated_def)
  from wf au authenticated_implies_user_and_token [OF wf au] show ?thesis
    by simp
qed

subsection \<open>C2: a successful login stores what the response carries\<close>

text \<open>
  Claim C2 on the response body \<^verbatim>\<open>{user_id, auth_token}\<close> of the login endpoint: login reads
  \<^verbatim>\<open>user\<close> and \<^verbatim>\<open>token\<close>, which that body does not have, so the store ends with
  \<^verbatim>\<open>is_authenticated\<close> true and with \<^verbatim>\<open>current_user\<close> and \<^verbatim>\<open>auth_token\<close> undefined, whatever
  \<^verbatim>\<open>user_id\<close> and \<^verbatim>\<open>auth_token\<close> the response carried.
\<close>

theorem login_spec_body_stores_undefined:
  "current_user (auth_state (final (login env
       (Resolved (JObj [(''user_id'', uid), (''auth_token'', tok)])) email password state)))
     = JUndefined
   \<and> auth_token (auth_state (final (login env
       (Resolved (JObj [(''user_id'', uid), (''auth_token'', tok)])) email password state)))
     = JUndefined
   \<and> is_authenticated (authentication_status (auth_state (final (login env
       (Resolved (JObj [(''user_id'', uid), (''auth_token'', tok)])) email password state))))"
  by (simp add: login_resolved)

subsection \<open>C3: check_auth without a token\<close>

text \<open>
  Claim C3. From every state whose \<^verbatim>\<open>auth_token\<close> is null, check_auth returns, sends no
  request, and leaves \<^verbatim>\<open>is_loading\<close> and \<^verbatim>\<open>is_authenticated\<close> false.
\<close>

theorem check_auth_without_token:
  assumes "auth_token (auth_state state) = JNull"
  shows "outcome (check_auth env r state) = Returned
    \<and> calls (check_auth env r state) = []
    \<and> \<not> is_loading (authentication_status (auth_state (final (check_auth env r state))))
    \<and> \<not> is_authenticated (authentication_status (auth_state (final (check_auth env r state))))"
  using assms by (simp add: check_auth_falsy)

text \<open>
  Claim C3 on the initial state, which is loading and has no token.
\<close>

theorem check_auth_without_token_witness:
  "auth_token (auth_state initial_state) = JNull
   \<and> outcome (check_auth None NoReply initial_state) = Returned
   \<and> calls (check_auth None NoReply initial_state) = []
   \<and> \<not> is_loading (authentication_status (auth_state (final (check_auth None NoReply initial_state))))
   \<and> \<not> is_authenticated
         (authentication_status (auth_state (final (check_auth None NoReply initial_state))))"
proof -
  have h: "auth_token (auth_state initial_state) = JNull"
    by (simp add: initial_state_def)
  from h check_auth_without_token [OF h, of None NoReply] show ?thesis
    by simp
qed

subsection \<open>C4: check_auth with a token\<close>

text \<open>
  Claim C4 as stated fails on a token that is non-null and empty: \<^verbatim>\<open>!token\<close> holds of the
  empty string, so check_auth sends no verify request and ends unauthenticated.
\<close>

theorem check_auth_empty_token_counterexample:
  "non_null (auth_token (auth_state
      (run None
         [Login ''ann@example.com'' ''pw''
            (Resolved (JObj [(''user'', JObj [(''id'', JStr ''u1'')]), (''token'', JStr '''')]))])))
   \<and> calls (check_auth None (Resolved (JObj [(''user'', JObj [(''id'', JStr ''u1'')])]))
      (run None
         [Login ''ann@example.com'' ''pw''
            (Resolved (JObj [(''user'', JObj [(''id'', JStr ''u1'')]), (''token'', JStr '''')]))]))
     = []
   \<and> \<not> is_authenticated (authentication_status (auth_state (final
      (check_auth None (Resolved (JObj [(''user'', JObj [(''id'', JStr ''u1'')])]))
      (run None
         [Login ''ann@example.com'' ''pw''
            (Resolved (JObj [(''user'', JObj [(''id'', JStr ''u1'')]), (''token'', JStr '''')]))])))))"
  by (simp add: run_def login_resolved check_auth_falsy non_null_def)

text \<open>
  Claim C4, amended. From every state whose \<^verbatim>\<open>auth_token\<close> is truthy (non-null and not the
  empty string), check_auth sends exactly one request, the verify request with that token
  as bearer, whatever the reply. If the request succeeds with a body that is not null, the
  store ends authenticated with \<^verbatim>\<open>current_user\<close> the \<^verbatim>\<open>user\<close> of the body and \<^verbatim>\<open>auth_token\<close>
  unchanged. If it fails, the store ends unauthenticated with \<^verbatim>\<open>current_user\<close> and
  \<^verbatim>\<open>auth_token\<close> null.
\<close>

theorem check_auth_with_token:
  assumes "truthy (auth_token (auth_state state))" and "\<not> nullish data"
  shows "calls (check_auth env r state) = [verify_request env (auth_token (auth_state state))]
    \<and> verify_request env (auth_token (auth_state state)) =
        Get (api_base env @ ''/api/auth/verify'')
          [(''Authorization'', Bearer (auth_token (auth_state state)))]
    \<and> check_auth env (Resolved data) state =
        \<lparr> final = state\<lparr> auth_state :=
            \<lparr> current_user = get_prop ''user'' data,
              auth_token = auth_token (auth_state state),
              authentication_status = \<lparr> is_authenticated = True, is_loading = False \<rparr>,
              error_message = JNull \<rparr> \<rparr>,
          calls = [verify_request env (auth_token (auth_state state))],
          outcome = Returned \<rparr>
    \<and> check_auth env (Rejected error) state =
        \<lparr> final = state\<lparr> auth_state :=
            \<lparr> current_user = JNull,
              auth_token = JNull,
              authentication_status = \<lparr> is_authenticated = False, is_loading = False \<rparr>,
              error_message = JNull \<rparr> \<rparr>,
          calls = [verify_request env (auth_token (auth_state state))],
          outcome = Returned \<rparr>"
  using assms
  by (simp add: check_auth_calls check_auth_resolved check_auth_rejected logout_def
      verify_request_def)

text \<open>
  Claim C4, amended, on a state that holds the token \<^verbatim>\<open>t1\<close>.
\<close>

theorem check_auth_with_token_witness:
  "truthy (auth_token (auth_state (initial_state\<lparr> auth_state :=
       (auth_state initial_state)\<lparr> auth_token := JStr ''t1'' \<rparr> \<rparr>)))
   \<and> \<not> nullish (JObj [(''user'', JObj [(''id'', JStr ''u1'')])])
   \<and> calls (check_auth None NoReply (initial_state\<lparr> auth_state :=
       (auth_state initial_state)\<lparr> auth_token := JStr ''t1'' \<rparr> \<rparr>))
     = [Get ''http://localhost:3000/api/auth/verify'' [(''Authorization'', Bearer (JStr ''t1''))]]
   \<and> auth_state (final (check_auth None (Resolved (JObj [(''user'', JObj [(''id'', JStr ''u1'')])]))
       (initial_state\<lparr> auth_state := (auth_state initial_state)\<lparr> auth_token := JStr ''t1'' \<rparr> \<rparr>)))
     = \<lparr> current_user = JObj [(''id'', JStr ''u1'')],
         auth_token = JStr ''t1'',
         authentication_status = \<lparr> is_authenticated = True, is_loading = False \<rparr>,
         error_message = JNull \<rparr>
   \<and> auth_state (final (check_auth None
       (Rejected \<lparr> err_response = JUndefined, err_message = ''Network Error'' \<rparr>)
       (initial_state\<lparr> auth_state := (auth_state initial_state)\<lparr> auth_token := JStr ''t1'' \<rparr> \<rparr>)))
     = \<lparr> current_user = JNull,
         auth_token = JNull,
         authentication_status = \<lparr> is_authenticated = False, is_loading = False \<rparr>,
         error_message = JNull \<rparr>"
proof -
  let ?s = "initial_state\<lparr> auth_state := (auth_state initial_state)\<lparr> auth_token := JStr ''t1'' \<rparr> \<rparr>"
  have h1: "truthy (auth_token (auth_state ?s))" by simp
  have h2: "\<not> nullish (JObj [(''user'', JObj [(''id'', JStr ''u1'')])])" by simp
  from h1 h2
    check_auth_with_token [OF h1 h2, of None NoReply
      "\<lparr> err_response = JUndefined, err_message = ''Network Error'' \<rparr>"]
  show ?thesis
    by (simp add: api_base_def)
qed

subsection \<open>C5: a failed login\<close>

text \<open>
  Claim C5 as stated fails on the message: login stores the \<^verbatim>\<open>message\<close> of the server's
  response whenever it is truthy, whatever its type. When the server answers 401 with a
  \<^verbatim>\<open>message\<close> that is an array, the \<^verbatim>\<open>error_message\<close> stored is that array, not a text a person
  can read.
\<close>

theorem login_failure_message_counterexample:
  "outcome (login None
      (Rejected \<lparr> err_response =
                   JObj [(''status'', JNum 401),
                         (''data'', JObj [(''message'', JArr [JStr ''Invalid credentials''])])],
                 err_message = ''Request failed with status code 401'' \<rparr>)
      ''ann@example.com'' ''wrong'' initial_state)
     = Threw_Error (JArr [JStr ''Invalid credentials''])
   \<and> error_message (auth_state (final (login None
      (Rejected \<lparr> err_response =
                   JObj [(''status'', JNum 401),
                         (''data'', JObj [(''message'', JArr [JStr ''Invalid credentials''])])],
                 err_message = ''Request failed with status code 401'' \<rparr>)
      ''ann@example.com'' ''wrong'' initial_state)))
     = JArr [JStr ''Invalid credentials'']
   \<and> \<not> human_readable (error_message (auth_state (final (login None
      (Rejected \<lparr> err_response =
                   JObj [(''status'', JNum 401),
                         (''data'', JObj [(''message'', JArr [JStr ''Invalid credentials''])])],
                 err_message = ''Request failed with status code 401'' \<rparr>)
      ''ann@example.com'' ''wrong'' initial_state))))"
  by (simp add: login_rejected login_error_message_def js_or_def opt_prop_def)

text \<open>
  Claim C5, amended. When the login request is rejected, login ends with \<^verbatim>\<open>is_authenticated\<close>
  and \<^verbatim>\<open>is_loading\<close> false, stores an \<^verbatim>\<open>error_message\<close> that is not null (the message of the
  server's response when that is truthy, else the message of the error, else
  \<^verbatim>\<open>Login failed\<close>), and throws an error with that message to the caller. The message stored
  is a text a person can read (a string that is not empty) exactly when the message of the
  server's response, if it is truthy, is one.
\<close>

theorem login_failure_caught:
  "outcome (login env (Rejected error) email password state)
     = Threw_Error (error_message (auth_state (final (login env (Rejected error) email password state))))
   \<and> \<not> is_authenticated (authentication_status
         (auth_state (final (login env (Rejected error) email password state))))
   \<and> \<not> is_loading (authentication_status
         (auth_state (final (login env (Rejected error) email password state))))
   \<and> non_null (error_message (auth_state (final (login env (Rejected error) email password state))))
   \<and> error_message (auth_state (final (login env (Rejected error) email password state)))
       = js_or (opt_prop ''message'' (opt_prop ''data'' (err_response error)))
           (js_or (JStr (err_message error)) (JStr ''Login failed''))
   \<and> human_readable
         (error_message (auth_state (final (login env (Rejected error) email password state))))
       = (truthy (opt_prop ''message'' (opt_prop ''data'' (err_response error)))
          \<longrightarrow> human_readable (opt_prop ''message'' (opt_prop ''data'' (err_response error))))"
proof -
  have "non_null (login_error_message error)"
    using truthy_not_nullish [OF login_error_message_truthy [of error]]
    by (simp add: non_null_def)
  moreover have "login_error_message error
      = js_or (opt_prop ''message'' (opt_prop ''data'' (err_response error)))
          (js_or (JStr (err_message error)) (JStr ''Login failed''))"
    by (simp add: login_error_message_def)
  ultimately show ?thesis
    using login_error_message_readable [of error]
    by (simp add: login_rejected)
qed

text \<open>
  Claim C5, amended, on a 401 whose response carries the message \<^verbatim>\<open>Invalid credentials\<close>:
  that text is stored and thrown.
\<close>

theorem login_failure_caught_witness:
  "truthy (opt_prop ''message'' (opt_prop ''data''
      (JObj [(''status'', JNum 401),
             (''data'', JObj [(''message'', JStr ''Invalid credentials'')])])))
   \<and> outcome (login None
      (Rejected \<lparr> err_response =
                   JObj [(''status'', JNum 401),
                         (''data'', JObj [(''message'', JStr ''Invalid credentials'')])],
                 err_message = ''Request failed with status code 401'' \<rparr>)
      ''ann@example.com'' ''wrong'' initial_state)
     = Threw_Error (JStr ''Invalid credentials'')
   \<and> human_readable (error_message (auth_state (final (login None
      (Rejected \<lparr> err_response =
                   JObj [(''status'', JNum 401),
                         (''data'', JObj [(''message'', JStr ''Invalid credentials'')])],
                 err_message = ''Request failed with status code 401'' \<rparr>)
      ''ann@example.com'' ''wrong'' initial_state))))"
  using login_failure_caught [of None
      "\<lparr> err_response =
           JObj [(''status'', JNum 401),
                 (''data'', JObj [(''message'', JStr ''Invalid credentials'')])],
         err_message = ''Request failed with status code 401'' \<rparr>"
      "''ann@example.com''" "''wrong''" initial_state]
  by (simp add: opt_prop_def js_or_def)

subsection \<open>C6: a failed verification\<close>

text \<open>
  Claim C6 as stated fails: when the verify request is rejected, even with a message from
  the server, check_auth stores no message; \<^verbatim>\<open>error_message\<close> ends null.
\<close>

theorem check_auth_failure_message_counterexample:
  "calls (check_auth None
      (Rejected \<lparr> err_response = JObj [(''data'', JObj [(''message'', JStr ''Token expired'')])],
                 err_message = ''Request failed with status code 401'' \<rparr>)
      (initial_state\<lparr> auth_state := (auth_state initial_state)\<lparr> auth_token := JStr ''t1'' \<rparr> \<rparr>))
     = [verify_request None (JStr ''t1'')]
   \<and> error_message (auth_state (final (check_auth None
      (Rejected \<lparr> err_response = JObj [(''data'', JObj [(''message'', JStr ''Token expired'')])],
                 err_message = ''Request failed with status code 401'' \<rparr>)
      (initial_state\<lparr> auth_state := (auth_state initial_state)\<lparr> auth_token := JStr ''t1'' \<rparr> \<rparr>))))
     = JNull"
  by (simp add: check_auth_rejected logout_def)

text \<open>
  Claim C6, amended. When the verify request of check_auth is rejected, check_auth returns
  without throwing, resets both flags to false, sets \<^verbatim>\<open>current_user\<close> and \<^verbatim>\<open>auth_token\<close> to null,
  and sets \<^verbatim>\<open>error_message\<close> to null.
\<close>

theorem check_auth_failure_silent:
  assumes "truthy (auth_token (auth_state state))"
  shows "outcome (check_auth env (Rejected error) state) = Returned
    \<and> auth_state (final (check_auth env (Rejected error) state)) =
        \<lparr> current_user = JNull,
          auth_token = JNull,
          authentication_status = \<lparr> is_authenticated = False, is_loading = False \<rparr>,
          error_message = JNull \<rparr>"
  using assms by (simp add: check_auth_rejected logout_def)

text \<open>
  Claim C6, amended, on a state that holds the token \<^verbatim>\<open>t1\<close>.
\<close>

theorem check_auth_failure_silent_witness:
  "truthy (auth_token (auth_state (initial_state\<lparr> auth_state :=
       (auth_state initial_state)\<lparr> auth_token := JStr ''t1'' \<rparr> \<rparr>)))
   \<and> outcome (check_auth None
        (Rejected \<lparr> err_response = JUndefined, err_message = ''Network Error'' \<rparr>)
        (initial_state\<lparr> auth_state := (auth_state initial_state)\<lparr> auth_token := JStr ''t1'' \<rparr> \<rparr>))
      = Returned
   \<and> auth_state (final (check_auth None
        (Rejected \<lparr> err_response = JUndefined, err_message = ''Network Error'' \<rparr>)
        (initial_state\<lparr> auth_state := (auth_state initial_state)\<lparr> auth_token := JStr ''t1'' \<rparr> \<rparr>)))
      = \<lparr> current_user = JNull,
          auth_token = JNull,
          authentication_status = \<lparr> is_authenticated = False, is_loading = False \<rparr>,
          error_message = JNull \<rparr>"
proof -
  let ?s = "initial_state\<lparr> auth_state := (auth_state initial_state)\<lparr> auth_token := JStr ''t1'' \<rparr> \<rparr>"
  have h: "truthy (auth_token (auth_state ?s))" by simp
  from h check_auth_failure_silent [OF h, of None
      "\<lparr> err_response = JUndefined, err_message = ''Network Error'' \<rparr>"]
  show ?thesis by simp
qed

subsection \<open>C7: logout\<close>

text \<open>
  Claim C7. From every state, logout ends with \<^verbatim>\<open>current_user\<close> and \<^verbatim>\<open>auth_token\<close> null and
  with \<^verbatim>\<open>is_authenticated\<close> and \<^verbatim>\<open>is_loading\<close> false (and the error cleared); it changes
  nothing outside the auth slice.
\<close>

theorem logout_unconditional:
  "auth_state (logout state) =
     \<lparr> current_user = JNull,
       auth_token = JNull,
       authentication_status = \<lparr> is_authenticated = False, is_loading = False \<rparr>,
       error_message = JNull \<rparr>
   \<and> logout state = state\<lparr> auth_state := auth_state (logout state) \<rparr>"
  by (simp add: logout_def)

subsection \<open>C8: what is persisted\<close>

text \<open>
  Claim C8. What partialize writes is an auth slice with \<^verbatim>\<open>is_loading\<close> false, the
  \<^verbatim>\<open>current_user\<close>, \<^verbatim>\<open>auth_token\<close> and \<^verbatim>\<open>is_authenticated\<close> of the state, and a null
  \<^verbatim>\<open>error_message\<close>, so nothing else of the state is persisted: it does not depend on the
  other slices, nor on the \<^verbatim>\<open>is_loading\<close> or the \<^verbatim>\<open>error_message\<close> in memory.
\<close>

theorem partialize_auth_slice_not_loading:
  "is_loading (authentication_status (persisted_auth_state (partialize state))) = False
   \<and> current_user (persisted_auth_state (partialize state)) = current_user (auth_state state)
   \<and> auth_token (persisted_auth_state (partialize state)) = auth_token (auth_state state)
   \<and> is_authenticated (authentication_status (persisted_auth_state (partialize state)))
       = is_authenticated (authentication_status (auth_state state))
   \<and> partialize (state\<lparr> featured_initiatives := initiatives, user_impact := impact,
        notification_count := count, environment_settings := settings \<rparr>) = partialize state
   \<and> partialize (state\<lparr> auth_state := (auth_state state)\<lparr> authentication_status :=
        (authentication_status (auth_state state))\<lparr> is_loading := loading \<rparr> \<rparr> \<rparr>)
       = partialize state
   \<and> error_message (persisted_auth_state (partialize state)) = JNull
   \<and> partialize (state\<lparr> auth_state := (auth_state state)\<lparr> error_message := m \<rparr> \<rparr>)
       = partialize state
   \<and> partialize state =
       \<lparr> persisted_auth_state =
           \<lparr> current_user = current_user (auth_state state),
             auth_token = auth_token (auth_state state),
             authentication_status =
               \<lparr> is_authenticated = is_authenticated (authentication_status (auth_state state)),
                 is_loading = False \<rparr>,
             error_message = JNull \<rparr> \<rparr>"
  by (simp add: partialize_def)

subsection \<open>C9: registering an email twice\<close>

text \<open>
  Claim C9. When the store has unique emails and holds the (normalised) email of a
  registration, \<^verbatim>\<open>register\<close> fails with DuplicateEmail, status 400, and leaves exactly one row
  with that email. The same holds under concurrency: whatever requests are in flight and
  however their steps interleave, the store ends with exactly one row with that email, and
  no request for it gets past the check.
\<close>

theorem register_duplicate_email:
  assumes "unique_emails rows" and "email_taken (normalize b (reg_email q)) rows"
  shows "register b q rows = (Inl DuplicateEmail, rows)
    \<and> status_code DuplicateEmail = 400
    \<and> length (rows_with_email (normalize b (reg_email q)) (snd (register b q rows))) = 1
    \<and> length (rows_with_email (normalize b (reg_email q))
         (store (run_schedule b sched (arrive qs rows)))) = 1
    \<and> unique_emails (store (run_schedule b sched (arrive qs rows)))
    \<and> list_all (kept_out (normalize b (reg_email q)) (normalize b))
         (attempts (run_schedule b sched (arrive qs rows)))"
proof -
  have r: "register b q rows = (Inl DuplicateEmail, rows)"
    using assms(2) by (simp add: register_def)
  have "duplicate_refused b (normalize b (reg_email q)) (run_schedule b sched (arrive qs rows))"
    using assms by (simp add: run_schedule_refused arrive_refused)
  then show ?thesis
    using r assms by (simp add: duplicate_refused_def one_row)
qed

text \<open>
  Claim C9 on the store that one registration of \<^verbatim>\<open>duplicate@example.com\<close> leaves, with two
  further requests for that email in flight.
\<close>

theorem register_duplicate_email_witness:
  "unique_emails (snd (register sample_backend sample_registration []))
   \<and> email_taken (normalize sample_backend (reg_email sample_registration))
        (snd (register sample_backend sample_registration []))
   \<and> fst (register sample_backend sample_registration
        (snd (register sample_backend sample_registration []))) = Inl DuplicateEmail
   \<and> length (rows_with_email ''duplicate@example.com''
        (store (run_schedule sample_backend [0, 1, 1, 0]
          (arrive [sample_registration, sample_registration]
             (snd (register sample_backend sample_registration [])))))) = 1"
proof -
  let ?rows = "snd (register sample_backend sample_registration [])"
  have h1: "unique_emails ?rows"
    by (simp add: register_def store_insert_def email_taken_def unique_emails_def)
  have h2: "email_taken (normalize sample_backend (reg_email sample_registration)) ?rows"
    by (simp add: register_def store_insert_def email_taken_def new_user_def)
  have e: "normalize sample_backend (reg_email sample_registration) = ''duplicate@example.com''"
    by (simp add: sample_backend_def sample_registration_def)
  from h1 h2 register_duplicate_email [OF h1 h2, of "[0, 1, 1, 0]"
      "[sample_registration, sample_registration]"]
  show ?thesis
    by (simp add: e)
qed

subsection \<open>C10: what a failed login leaves untouched\<close>

text \<open>
  Claim C10. When the login request is rejected, login leaves \<^verbatim>\<open>current_user\<close> and
  \<^verbatim>\<open>auth_token\<close> as they were before the call: of the whole state only the two flags and
  \<^verbatim>\<open>error_message\<close> change.
\<close>

theorem login_failure_frame:
  "current_user (auth_state (final (login env (Rejected error) email password state)))
     = current_user (auth_state state)
   \<and> auth_token (auth_state (final (login env (Rejected error) email password state)))
     = auth_token (auth_state state)
   \<and> final (login env (Rejected error) email password state)
     = state\<lparr> auth_state := (auth_state state)
         \<lparr> authentication_status := \<lparr> is_authenticated = False, is_loading = False \<rparr>,
           error_message := error_message
             (auth_state (final (login env (Rejected error) email password state))) \<rparr> \<rparr>"
  by (simp add: login_rejected)

end
